theory Spec2Isabelle
  imports Main "HOL-Library.Multiset"
begin

section \<open>The exam application: request handlers of \<^verbatim>\<open>backend/app.py\<close>\<close>

text \<open>
  The application is four Flask handlers over two globals: the dictionary \<^verbatim>\<open>users\<close>
  and the list \<^verbatim>\<open>questions\<close>. A handler reads the JSON body of the request with
  \<^verbatim>\<open>request.get_json()\<close> and applies a handful of Python operations to it: truth
  testing (\<^verbatim>\<open>not x\<close>), \<^verbatim>\<open>.get\<close>, subscripting, iteration, dictionary membership and
  \<^verbatim>\<open>==\<close>. Each of them is modelled below on the values a JSON document parses to, with
  the exception Python raises as a value of the result.

  Outside the model: JSON numbers with a fraction or an exponent (Python floats), the
  token library behind \<^verbatim>\<open>jwt_required\<close> and \<^verbatim>\<open>create_access_token\<close>, and the
  serialisation done by \<^verbatim>\<open>jsonify\<close>: a handler's result is the Python value it hands
  to \<^verbatim>\<open>jsonify\<close>. The two protected handlers are modelled from the point where the token
  check has passed.
\<close>

subsection \<open>Python values of a JSON body\<close>

text \<open>
  An object is the list of its members; as in the parsed dictionary, a key occurs once.
\<close>

datatype json =
    JNull
  | JBool bool
  | JInt int
  | JStr string
  | JArr "json list"
  | JObj "(string \<times> json) list"

datatype exn = KeyError | TypeError | AttributeError

text \<open>\<^verbatim>\<open>not x\<close> is false exactly on the values below.\<close>

fun truthy :: "json \<Rightarrow> bool" where
  "truthy JNull = False"
| "truthy (JBool b) = b"
| "truthy (JInt i) = (i \<noteq> 0)"
| "truthy (JStr s) = (s \<noteq> [])"
| "truthy (JArr xs) = (xs \<noteq> [])"
| "truthy (JObj kvs) = (kvs \<noteq> [])"

text \<open>
  \<^verbatim>\<open>a == b\<close>. \<^verbatim>\<open>bool\<close> is a subclass of \<^verbatim>\<open>int\<close>, so \<^verbatim>\<open>True == 1\<close>; lists are compared
  element by element, dictionaries member by member whatever their order.
\<close>

fun py_eq :: "json \<Rightarrow> json \<Rightarrow> bool" where
  "py_eq JNull JNull = True"
| "py_eq (JStr s) (JStr t) = (s = t)"
| "py_eq (JArr xs) (JArr ys) = list_all2 py_eq xs ys"
| "py_eq (JObj a) (JObj b) =
     (length a = length b \<and>
      list_all (\<lambda>(k, v). list_ex (\<lambda>(k', w). k = k' \<and> py_eq v w) b) a)"
| "py_eq (JBool a) (JBool b) = (a = b)"
| "py_eq (JBool a) (JInt j) = ((if a then 1 else 0) = j)"
| "py_eq (JInt i) (JBool b) = (i = (if b then 1 else 0))"
| "py_eq (JInt i) (JInt j) = (i = j)"
| "py_eq _ _ = False"

text \<open>
  Dictionary keys. A dictionary finds a key by \<^verbatim>\<open>hash\<close> and \<^verbatim>\<open>==\<close>, so \<^verbatim>\<open>True\<close> and
  \<^verbatim>\<open>1\<close> fall into one slot; lists and dictionaries are unhashable and raise
  \<^verbatim>\<open>TypeError\<close>. \<open>pykey\<close> is the type of slots, and \<open>hash_key\<close> gives the slot of a
  value. The dictionaries \<^verbatim>\<open>users\<close> and \<^verbatim>\<open>question_map\<close> are only looked up, never
  returned, and are modelled by their lookup function on slots, \<open>pykey \<rightharpoonup> 'v\<close>.
\<close>

datatype pykey = KNone | KInt int | KStr string

fun hash_key :: "json \<Rightarrow> exn + pykey" where
  "hash_key JNull = Inr KNone"
| "hash_key (JBool b) = Inr (KInt (if b then 1 else 0))"
| "hash_key (JInt i) = Inr (KInt i)"
| "hash_key (JStr s) = Inr (KStr s)"
| "hash_key (JArr xs) = Inl TypeError"
| "hash_key (JObj kvs) = Inl TypeError"

text \<open>
  The dictionary \<^verbatim>\<open>correct_answers\<close> is returned, so its keys are part of the result:
  it is modelled with, in each slot, the key object it holds and the value.
  \<^verbatim>\<open>d[key] = v\<close> with \<open>k\<close> the slot of \<open>key\<close>: into an empty slot go the key and
  the value; in a filled slot the value is replaced and the key that is there stays
  (after \<^verbatim>\<open>d[1] = x; d[True] = y\<close> the dictionary is \<^verbatim>\<open>{1: y}\<close>). The order of
  insertion is not part of the model: \<^verbatim>\<open>==\<close> on dictionaries does not see it.
\<close>

definition dict_set :: "(pykey \<rightharpoonup> json \<times> 'v) \<Rightarrow> pykey \<Rightarrow> json \<Rightarrow> 'v \<Rightarrow> (pykey \<rightharpoonup> json \<times> 'v)" where
  "dict_set d k key v =
     (case d k of None \<Rightarrow> d(k \<mapsto> (key, v)) | Some held \<Rightarrow> d(k \<mapsto> (fst held, v)))"

text \<open>\<^verbatim>\<open>data.get(k)\<close>: \<^verbatim>\<open>None\<close> for a missing key; only a dictionary has the method.\<close>

fun dict_get :: "json \<Rightarrow> string \<Rightarrow> exn + json" where
  "dict_get (JObj kvs) k = (case map_of kvs k of None \<Rightarrow> Inr JNull | Some v \<Rightarrow> Inr v)"
| "dict_get _ k = Inl AttributeError"

text \<open>
  \<^verbatim>\<open>answer[k]\<close> with a string \<open>k\<close>: \<^verbatim>\<open>KeyError\<close> for a missing key of a dictionary,
  \<^verbatim>\<open>TypeError\<close> on a list, a string, a number, a boolean or \<^verbatim>\<open>None\<close>.
\<close>

fun subscript :: "json \<Rightarrow> string \<Rightarrow> exn + json" where
  "subscript (JObj kvs) k = (case map_of kvs k of None \<Rightarrow> Inl KeyError | Some v \<Rightarrow> Inr v)"
| "subscript _ k = Inl TypeError"

text \<open>
  \<^verbatim>\<open>for answer in user_answers\<close>: the elements of a list, the keys of a dictionary, the
  characters of a string; anything else is not iterable.
\<close>

fun iterate :: "json \<Rightarrow> exn + json list" where
  "iterate (JArr xs) = Inr xs"
| "iterate (JObj kvs) = Inr (map (\<lambda>(k, v). JStr k) kvs)"
| "iterate (JStr s) = Inr (map (\<lambda>c. JStr [c]) s)"
| "iterate _ = Inl TypeError"

subsection \<open>The question bank\<close>

record question =
  q_id :: int
  q_question :: string
  q_options :: "string list"
  q_correct_answer :: string

definition questions :: "question list" where
  "questions =
    [\<lparr>q_id = 1, q_question = ''What is the capital of France?'',
      q_options = [''Berlin'', ''Madrid'', ''Paris'', ''Rome''],
      q_correct_answer = ''Paris''\<rparr>,
     \<lparr>q_id = 2, q_question = ''Which planet is known as the Red Planet?'',
      q_options = [''Earth'', ''Mars'', ''Jupiter'', ''Saturn''],
      q_correct_answer = ''Mars''\<rparr>,
     \<lparr>q_id = 3, q_question = ''What is the largest ocean on Earth?'',
      q_options = [''Atlantic Ocean'', ''Indian Ocean'', ''Arctic Ocean'', ''Pacific Ocean''],
      q_correct_answer = ''Pacific Ocean''\<rparr>,
     \<lparr>q_id = 4, q_question = ''Who wrote 'To Kill a Mockingbird'?'',
      q_options = [''Harper Lee'', ''Mark Twain'', ''Ernest Hemingway'', ''F. Scott Fitzgerald''],
      q_correct_answer = ''Harper Lee''\<rparr>,
     \<lparr>q_id = 5, q_question = ''What is the square root of 64?'',
      q_options = [''6'', ''7'', ''8'', ''9''],
      q_correct_answer = ''8''\<rparr>]"

subsection \<open>Registration and login\<close>

text \<open>
  A response of the two handlers: \<^verbatim>\<open>jsonify({"msg": m}), status\<close>, or the token issued
  for an identity with status 200.
\<close>

datatype response = Msg string nat | AccessToken json

text \<open>
  \<^verbatim>\<open>
  data = request.get_json()
  username = data.get("username")
  password = data.get("password")
  if not username or not password:
      return jsonify({"msg": "Username and password are required"}), 400
  if username in users:
      return jsonify({"msg": "User already exists"}), 409
  users[username] = password
  return jsonify({"msg": "User registered successfully"}), 201
  \<close>
  The handler returns its response and the dictionary \<^verbatim>\<open>users\<close> as it leaves it. Every
  exception is raised before the only write, so \<open>Inl\<close> carries no dictionary.
\<close>

definition register :: "(pykey \<rightharpoonup> json) \<Rightarrow> json \<Rightarrow> exn + response \<times> (pykey \<rightharpoonup> json)" where
  "register users data =
    (case dict_get data ''username'' of Inl e \<Rightarrow> Inl e | Inr username \<Rightarrow>
     case dict_get data ''password'' of Inl e \<Rightarrow> Inl e | Inr password \<Rightarrow>
       if \<not> truthy username \<or> \<not> truthy password
       then Inr (Msg ''Username and password are required'' 400, users)
       else
         (case hash_key username of Inl e \<Rightarrow> Inl e | Inr k \<Rightarrow>
            if users k \<noteq> None
            then Inr (Msg ''User already exists'' 409, users)
            else Inr (Msg ''User registered successfully'' 201, users(k \<mapsto> password))))"

text \<open>
  \<^verbatim>\<open>
  if not username or not password:
      return jsonify({"msg": "Username and password are required"}), 400
  if username not in users or users[username] != password:
      return jsonify({"msg": "Invalid username or password"}), 401
  access_token = create_access_token(identity=username)
  return jsonify(access_token=access_token)
  \<close>
\<close>

definition login :: "(pykey \<rightharpoonup> json) \<Rightarrow> json \<Rightarrow> exn + response \<times> (pykey \<rightharpoonup> json)" where
  "login users data =
    (case dict_get data ''username'' of Inl e \<Rightarrow> Inl e | Inr username \<Rightarrow>
     case dict_get data ''password'' of Inl e \<Rightarrow> Inl e | Inr password \<Rightarrow>
       if \<not> truthy username \<or> \<not> truthy password
       then Inr (Msg ''Username and password are required'' 400, users)
       else
         (case hash_key username of Inl e \<Rightarrow> Inl e | Inr k \<Rightarrow>
            (case users k of
               None \<Rightarrow> Inr (Msg ''Invalid username or password'' 401, users)
             | Some stored \<Rightarrow>
                 if \<not> py_eq stored password
                 then Inr (Msg ''Invalid username or password'' 401, users)
                 else Inr (AccessToken username, users))))"

subsection \<open>Listing the questions\<close>

text \<open>
  \<^verbatim>\<open>
  question_data = [{"id": q["id"], "question": q["question"], "options": q["options"]}
                   for q in questions]
  return jsonify(question_data)
  \<close>
\<close>

definition get_questions :: "question list \<Rightarrow> json" where
  "get_questions qs =
    JArr (map (\<lambda>q. JObj [(''id'', JInt (q_id q)),
                          (''question'', JStr (q_question q)),
                          (''options'', JArr (map JStr (q_options q)))]) qs)"

subsection \<open>Scoring a submission\<close>

text \<open>
  \<^verbatim>\<open>question_map = {q["id"]: q for q in questions}\<close>: a later question with the same id
  replaces an earlier one.
\<close>

definition question_map :: "question list \<Rightarrow> (pykey \<rightharpoonup> question)" where
  "question_map qs = fold (\<lambda>q m. m(KInt (q_id q) \<mapsto> q)) qs Map.empty"

record scoring_result =
  score :: nat
  total :: nat
  correct_answers :: "pykey \<rightharpoonup> json \<times> string"

text \<open>
  The body of the loop, on the pair of \<^verbatim>\<open>score\<close> and \<^verbatim>\<open>correct_answers\<close>:
  \<^verbatim>\<open>
  q_id = answer["id"]
  user_option = answer["selected_option"]
  if q_id in question_map:
      correct_option = question_map[q_id]["correct_answer"]
      correct_answers[q_id] = correct_option
      if user_option == correct_option:
          score += 1
  \<close>
\<close>

definition score_step ::
  "(pykey \<rightharpoonup> question) \<Rightarrow> json \<Rightarrow> nat \<times> (pykey \<rightharpoonup> json \<times> string)
     \<Rightarrow> exn + nat \<times> (pykey \<rightharpoonup> json \<times> string)" where
  "score_step qm answer acc =
    (case subscript answer ''id'' of Inl e \<Rightarrow> Inl e | Inr qid \<Rightarrow>
     case subscript answer ''selected_option'' of Inl e \<Rightarrow> Inl e | Inr user_option \<Rightarrow>
     case hash_key qid of Inl e \<Rightarrow> Inl e | Inr k \<Rightarrow>
       (case qm k of
          None \<Rightarrow> Inr acc
        | Some q \<Rightarrow>
            (let correct_option = q_correct_answer q;
                 ca = dict_set (snd acc) k qid correct_option
             in if py_eq user_option (JStr correct_option)
                then Inr (fst acc + 1, ca)
                else Inr (fst acc, ca))))"

text \<open>The loop: an exception in one iteration ends the request.\<close>

fun score_loop ::
  "(pykey \<rightharpoonup> question) \<Rightarrow> json list \<Rightarrow> nat \<times> (pykey \<rightharpoonup> json \<times> string)
     \<Rightarrow> exn + nat \<times> (pykey \<rightharpoonup> json \<times> string)" where
  "score_loop qm [] acc = Inr acc"
| "score_loop qm (answer # rest) acc =
     (case score_step qm answer acc of Inl e \<Rightarrow> Inl e | Inr acc' \<Rightarrow> score_loop qm rest acc')"

text \<open>
  \<^verbatim>\<open>
  user_answers = request.get_json()
  score = 0
  total = len(questions)
  correct_answers = {}
  question_map = {q["id"]: q for q in questions}
  for answer in user_answers: ...
  return jsonify({"score": score, "total": total, "correct_answers": correct_answers})
  \<close>
  The bank is a parameter; the application runs the handler on \<open>questions\<close>.
\<close>

definition submit_exam :: "question list \<Rightarrow> json \<Rightarrow> exn + scoring_result" where
  "submit_exam qs user_answers =
    (case iterate user_answers of Inl e \<Rightarrow> Inl e | Inr answers \<Rightarrow>
     case score_loop (question_map qs) answers (0, Map.empty) of
       Inl e \<Rightarrow> Inl e
     | Inr acc \<Rightarrow> Inr \<lparr>score = fst acc, total = length qs, correct_answers = snd acc\<rparr>)"

subsection \<open>Shapes of a submission\<close>

text \<open>
  An entry of the submission list that carries both fields: a JSON object with the keys
  \<^verbatim>\<open>id\<close> and \<^verbatim>\<open>selected_option\<close>.
\<close>

fun carries_fields :: "json \<Rightarrow> bool" where
  "carries_fields (JObj kvs) =
     (map_of kvs ''id'' \<noteq> None \<and> map_of kvs ''selected_option'' \<noteq> None)"
| "carries_fields _ = False"

text \<open>An entry that carries both fields and whose id is a scalar (hashable).\<close>

fun well_formed :: "json \<Rightarrow> bool" where
  "well_formed (JObj kvs) =
     (case map_of kvs ''id'' of
        None \<Rightarrow> False
      | Some i \<Rightarrow> hash_key i \<noteq> Inl TypeError \<and> map_of kvs ''selected_option'' \<noteq> None)"
| "well_formed _ = False"

text \<open>Whether a key occurs in an object anywhere inside a JSON value.\<close>

fun has_key :: "string \<Rightarrow> json \<Rightarrow> bool" where
  "has_key k (JObj kvs) = list_ex (\<lambda>(k', v). k' = k \<or> has_key k v) kvs"
| "has_key k (JArr xs) = list_ex (has_key k) xs"
| "has_key k _ = False"




section \<open>Properties\<close>

subsection \<open>The bank and the operations on values\<close>

lemma question_map_questions:
  "question_map questions =
     [KInt 1 \<mapsto> questions ! 0, KInt 2 \<mapsto> questions ! Suc 0, KInt 3 \<mapsto> questions ! 2,
      KInt 4 \<mapsto> questions ! 3, KInt 5 \<mapsto> questions ! 4]"
  by (simp add: question_map_def questions_def)

lemma length_questions: "length questions = 5"
  by (simp add: questions_def)

lemma correct_answer_questions:
  "q_correct_answer (questions ! 0) = ''Paris''"
  "q_correct_answer (questions ! Suc 0) = ''Mars''"
  "q_correct_answer (questions ! 2) = ''Pacific Ocean''"
  "q_correct_answer (questions ! 3) = ''Harper Lee''"
  "q_correct_answer (questions ! 4) = ''8''"
  by (simp_all add: questions_def)

lemmas run_simps =
  submit_exam_def question_map_questions score_step_def dict_set_def length_questions
  correct_answer_questions Let_def

text \<open>Only an equal string is \<^verbatim>\<open>==\<close> to a string: no case folding, no trimming.\<close>

lemma py_eq_JStr: "py_eq x (JStr s) = (x = JStr s)"
  by (cases x) auto

lemma hash_key_Inl: "hash_key i = Inl e \<Longrightarrow> e = TypeError"
  by (cases i) auto

lemma dom_question_map: "dom (question_map qs) = KInt ` q_id ` set qs"
proof -
  have "dom (fold (\<lambda>q m. m(KInt (q_id q) \<mapsto> q)) qs m0) = dom m0 \<union> KInt ` q_id ` set qs" for m0
    by (induction qs arbitrary: m0) auto
  then show ?thesis by (simp add: question_map_def)
qed

subsection \<open>Writing into the returned dictionary\<close>

lemma dom_dict_set: "dom (dict_set d k key v) = insert k (dom d)"
  by (auto simp: dict_set_def split: option.splits)

text \<open>Last write wins: after a write the slot holds the value written.\<close>

lemma dict_set_value: "map_option snd (dict_set d k key v k) = Some v"
  by (simp add: dict_set_def split: option.splits)

lemma dict_set_other: "l \<noteq> k \<Longrightarrow> dict_set d k key v l = d l"
  by (simp add: dict_set_def split: option.splits)

text \<open>First key stays: a write into a filled slot keeps the key that is there.\<close>

lemma dict_set_key:
  "map_option fst (dict_set d k key v k) = (case d k of None \<Rightarrow> Some key | Some held \<Rightarrow> Some (fst held))"
  by (simp add: dict_set_def split: option.splits)


subsection \<open>The loop\<close>


text \<open>One iteration on an entry that carries both fields.\<close>

lemma score_step_fields:
  assumes "subscript a ''id'' = Inr i" and "subscript a ''selected_option'' = Inr opt"
  shows "score_step qm a acc =
    (case hash_key i of
       Inl e \<Rightarrow> Inl TypeError
     | Inr k \<Rightarrow>
         (case qm k of
            None \<Rightarrow> Inr acc
          | Some q \<Rightarrow>
              Inr (fst acc + (if opt = JStr (q_correct_answer q) then 1 else 0),
                   dict_set (snd acc) k i (q_correct_answer q))))"
  using assms
  by (auto simp: score_step_def Let_def py_eq_JStr split: sum.splits option.splits dest: hash_key_Inl)

lemma score_loop_append:
  "score_loop qm (xs @ ys) acc =
     (case score_loop qm xs acc of Inl e \<Rightarrow> Inl e | Inr acc' \<Rightarrow> score_loop qm ys acc')"
  by (induction xs arbitrary: acc) (auto split: sum.splits)


lemma score_step_well_formed:
  assumes "well_formed a"
  shows "\<exists>acc'. score_step qm a acc = Inr acc'"
proof (cases a)
  case (JObj kvs)
  with assms obtain i opt
    where f: "subscript a ''id'' = Inr i" "subscript a ''selected_option'' = Inr opt"
      and h: "hash_key i \<noteq> Inl TypeError"
    by (auto split: option.splits)
  from h obtain k where "hash_key i = Inr k"
    by (cases "hash_key i") (auto dest: hash_key_Inl)
  then show ?thesis
    by (simp add: score_step_fields [OF f] split: option.splits)
qed (use assms in simp_all)

lemma score_loop_well_formed:
  "list_all well_formed xs \<Longrightarrow> \<exists>acc'. score_loop qm xs acc = Inr acc'"
proof (induction xs arbitrary: acc)
  case Nil
  then show ?case by simp
next
  case (Cons a xs)
  then obtain acc' where "score_step qm a acc = Inr acc'"
    using score_step_well_formed [of a qm acc] by auto
  with Cons show ?case by simp
qed

text \<open>The loop writes \<^verbatim>\<open>correct_answers\<close> only at keys of the bank.\<close>

lemma score_step_dom:
  assumes "score_step qm a acc = Inr acc'"
  shows "dom (snd acc') \<subseteq> dom (snd acc) \<union> dom qm"
proof -
  from assms obtain i opt
    where f: "subscript a ''id'' = Inr i" "subscript a ''selected_option'' = Inr opt"
    by (auto simp: score_step_def split: sum.splits)
  note step = assms [unfolded score_step_fields [OF f]]
  from step obtain k where k: "hash_key i = Inr k"
    by (cases "hash_key i") simp_all
  show ?thesis
  proof (cases "qm k")
    case None
    with step k have "acc' = acc" by simp
    then show ?thesis by simp
  next
    case (Some q)
    with step k have "snd acc' = dict_set (snd acc) k i (q_correct_answer q)"
      by auto
    with Some have "dom (snd acc') = insert k (dom (snd acc))" and "k \<in> dom qm"
      by (simp_all add: dom_dict_set domI)
    then show ?thesis by simp
  qed
qed

lemma score_loop_dom:
  "score_loop qm xs acc = Inr acc' \<Longrightarrow> dom (snd acc') \<subseteq> dom (snd acc) \<union> dom qm"
proof (induction xs arbitrary: acc)
  case Nil
  then show ?case by auto
next
  case (Cons a xs)
  then obtain acc1
    where s: "score_step qm a acc = Inr acc1" and l: "score_loop qm xs acc1 = Inr acc'"
    by (auto split: sum.splits)
  from Cons.IH [OF l] score_step_dom [OF s] show ?case by blast
qed

text \<open>
  A list with an entry that does not carry both fields gets no result: the loop ends in
  an exception, at that entry or before it.
\<close>

lemma score_step_not_carries:
  assumes "\<not> carries_fields a"
  shows "\<exists>e. score_step qm a acc = Inl e"
  using assms by (cases a) (auto simp: score_step_def split: option.splits)

lemma score_loop_not_carries:
  "\<not> list_all carries_fields xs \<Longrightarrow> \<exists>e. score_loop qm xs acc = Inl e"
proof (induction xs arbitrary: acc)
  case Nil
  then show ?case by simp
next
  case (Cons a xs)
  show ?case
  proof (cases "score_step qm a acc")
    case (Inl e)
    then show ?thesis by simp
  next
    case (Inr acc')
    with score_step_not_carries [of a qm acc] have "carries_fields a"
      by auto
    with Cons.prems have "\<not> list_all carries_fields xs" by simp
    from Cons.IH [OF this, of acc'] Inr show ?thesis by simp
  qed
qed

lemma submit_exam_not_carries:
  "\<not> list_all carries_fields xs \<Longrightarrow> \<exists>e. submit_exam qs (JArr xs) = Inl e"
  using score_loop_not_carries [of xs "question_map qs" "(0, Map.empty)"]
  by (auto simp: submit_exam_def)

subsection \<open>Reordering the submissions\<close>




section \<open>The claims about scoring\<close>

text \<open>
  C1. Whatever the submission list, the total of a returned result is the size of the
  bank (5 for the shipped bank). A list of entries that carry an id (a scalar) and a
  selected option always gets a result. The empty list gets score 0, the size of the bank
  as total, and no correct answers.
\<close>

theorem submit_exam_total:
  "(\<forall>r. submit_exam qs user_answers = Inr r \<longrightarrow> total r = length qs)
   \<and> (list_all well_formed answers \<longrightarrow>
        (\<exists>s ca. submit_exam qs (JArr answers) =
           Inr \<lparr>score = s, total = length qs, correct_answers = ca\<rparr>))
   \<and> submit_exam qs (JArr []) = Inr \<lparr>score = 0, total = length qs, correct_answers = Map.empty\<rparr>
   \<and> submit_exam questions (JArr []) = Inr \<lparr>score = 0, total = 5, correct_answers = Map.empty\<rparr>"
proof (intro conjI allI impI)
  fix r
  assume "submit_exam qs user_answers = Inr r"
  then show "total r = length qs"
    by (auto simp: submit_exam_def split: sum.splits)
next
  assume "list_all well_formed answers"
  then obtain acc where "score_loop (question_map qs) answers (0, Map.empty) = Inr acc"
    using score_loop_well_formed by blast
  then show "\<exists>s ca. submit_exam qs (JArr answers) =
      Inr \<lparr>score = s, total = length qs, correct_answers = ca\<rparr>"
    by (simp add: submit_exam_def)
next
  show "submit_exam qs (JArr []) = Inr \<lparr>score = 0, total = length qs, correct_answers = Map.empty\<rparr>"
    by (simp add: submit_exam_def)
next
  show "submit_exam questions (JArr []) = Inr \<lparr>score = 0, total = 5, correct_answers = Map.empty\<rparr>"
    by (simp add: submit_exam_def length_questions)
qed

text \<open>The theorem at one answer to question 3 of the shipped bank.\<close>

theorem submit_exam_total_witness:
  "list_all well_formed [JObj [(''id'', JInt 3), (''selected_option'', JStr ''Pacific Ocean'')]]
   \<and> submit_exam questions
        (JArr [JObj [(''id'', JInt 3), (''selected_option'', JStr ''Pacific Ocean'')]])
       = Inr \<lparr>score = 1, total = 5, correct_answers = [KInt 3 \<mapsto> (JInt 3, ''Pacific Ocean'')]\<rparr>
   \<and> total \<lparr>score = 1, total = 5, correct_answers = [KInt 3 \<mapsto> (JInt 3, ''Pacific Ocean'')]\<rparr>
       = length questions"
proof -
  let ?ua = "JArr [JObj [(''id'', JInt 3), (''selected_option'', JStr ''Pacific Ocean'')]]"
  let ?r = "\<lparr>score = 1, total = 5, correct_answers = [KInt 3 \<mapsto> (JInt 3, ''Pacific Ocean'')]\<rparr>"
  have run: "submit_exam questions ?ua = Inr ?r"
    by (simp add: run_simps)
  from submit_exam_total [of questions ?ua] run have "total ?r = length questions"
    by blast
  with run show ?thesis by simp
qed

text \<open>
  A submission whose id is a scalar (null, a boolean, an integer or a string) and is not
  the id of a question of the bank is skipped: the iteration raises nothing and leaves
  score and correct answers as they were, the whole list is scored as the list without
  that submission, and the result has no correct answer at that id.
\<close>

lemma unknown_id_skipped:
  assumes "subscript a ''id'' = Inr i" and "subscript a ''selected_option'' = Inr opt"
    and "hash_key i = Inr k" and "k \<notin> KInt ` q_id ` set qs"
  shows "score_step (question_map qs) a acc = Inr acc
    \<and> submit_exam qs (JArr (xs @ a # ys)) = submit_exam qs (JArr (xs @ ys))
    \<and> (\<forall>r. submit_exam qs (JArr (xs @ a # ys)) = Inr r \<longrightarrow> correct_answers r k = None)"
proof -
  from assms(4) have none: "question_map qs k = None"
    using dom_question_map [of qs] by blast
  have skip: "score_step (question_map qs) a acc' = Inr acc'" for acc'
    by (simp add: score_step_fields [OF assms(1,2)] assms(3) none)
  have same: "score_loop (question_map qs) (xs @ a # ys) acc'
      = score_loop (question_map qs) (xs @ ys) acc'" for acc'
    by (simp add: score_loop_append skip split: sum.splits)
  have "correct_answers r k = None" if "submit_exam qs (JArr (xs @ a # ys)) = Inr r" for r
  proof -
    from that obtain acc'
      where l: "score_loop (question_map qs) (xs @ a # ys) (0, Map.empty) = Inr acc'"
        and r: "correct_answers r = snd acc'"
      by (auto simp: submit_exam_def split: sum.splits)
    from score_loop_dom [OF l] none have "k \<notin> dom (snd acc')" by auto
    with r show ?thesis by auto
  qed
  with skip same show ?thesis by (simp add: submit_exam_def)
qed

text \<open>The lemma at id 999 between two answers to the shipped bank.\<close>

lemma unknown_id_skipped_999:
  "subscript (JObj [(''id'', JInt 999), (''selected_option'', JStr ''Paris'')]) ''id''
     = Inr (JInt 999)
   \<and> subscript (JObj [(''id'', JInt 999), (''selected_option'', JStr ''Paris'')]) ''selected_option''
     = Inr (JStr ''Paris'')
   \<and> hash_key (JInt 999) = Inr (KInt 999)
   \<and> KInt 999 \<notin> KInt ` q_id ` set questions
   \<and> submit_exam questions
       (JArr [JObj [(''id'', JInt 1), (''selected_option'', JStr ''Paris'')],
              JObj [(''id'', JInt 999), (''selected_option'', JStr ''Paris'')],
              JObj [(''id'', JInt 2), (''selected_option'', JStr ''Earth'')]])
     = submit_exam questions
       (JArr [JObj [(''id'', JInt 1), (''selected_option'', JStr ''Paris'')],
              JObj [(''id'', JInt 2), (''selected_option'', JStr ''Earth'')]])
   \<and> submit_exam questions
       (JArr [JObj [(''id'', JInt 1), (''selected_option'', JStr ''Paris'')],
              JObj [(''id'', JInt 999), (''selected_option'', JStr ''Paris'')],
              JObj [(''id'', JInt 2), (''selected_option'', JStr ''Earth'')]])
     = Inr \<lparr>score = 1, total = 5,
            correct_answers = [KInt 1 \<mapsto> (JInt 1, ''Paris''), KInt 2 \<mapsto> (JInt 2, ''Mars'')]\<rparr>"
proof -
  let ?a = "JObj [(''id'', JInt 999), (''selected_option'', JStr ''Paris'')]"
  let ?x = "JObj [(''id'', JInt 1), (''selected_option'', JStr ''Paris'')]"
  let ?y = "JObj [(''id'', JInt 2), (''selected_option'', JStr ''Earth'')]"
  have h1: "subscript ?a ''id'' = Inr (JInt 999)" by simp
  have h2: "subscript ?a ''selected_option'' = Inr (JStr ''Paris'')" by simp
  have h3: "hash_key (JInt 999) = Inr (KInt 999)" by simp
  have h4: "KInt 999 \<notin> KInt ` q_id ` set questions"
    by (simp add: questions_def)
  from unknown_id_skipped [OF h1 h2 h3 h4, of _ "[?x]" "[?y]"]
  have same: "submit_exam questions (JArr [?x, ?a, ?y]) = submit_exam questions (JArr [?x, ?y])"
    by simp
  have run: "submit_exam questions (JArr [?x, ?y])
     = Inr \<lparr>score = 1, total = 5,
            correct_answers = [KInt 1 \<mapsto> (JInt 1, ''Paris''), KInt 2 \<mapsto> (JInt 2, ''Mars'')]\<rparr>"
    by (simp add: run_simps)
  from h1 h2 h3 h4 same run show ?thesis by simp
qed

text \<open>
  C2 fails on the code. An id that is a list or an object names no question of the bank,
  yet the submission is not skipped: \<^verbatim>\<open>q_id in question_map\<close> hashes the id and raises
  \<^verbatim>\<open>TypeError\<close>, which nothing catches, so the request ends in that exception, also
  after other submissions were scored. For the ids that can be hashed the skip is lemma
  \<open>unknown_id_skipped\<close>.
\<close>

theorem submit_exam_unhashable_id:
  "submit_exam questions
     (JArr [JObj [(''id'', JArr [JInt 999]), (''selected_option'', JStr ''Paris'')]])
   = Inl TypeError
   \<and> submit_exam questions
     (JArr [JObj [(''id'', JInt 1), (''selected_option'', JStr ''Paris'')],
            JObj [(''id'', JArr [JInt 999]), (''selected_option'', JStr ''Paris'')],
            JObj [(''id'', JInt 2), (''selected_option'', JStr ''Earth'')]])
   = Inl TypeError
   \<and> submit_exam questions
     (JArr [JObj [(''id'', JObj [(''n'', JInt 999)]), (''selected_option'', JStr ''Paris'')]])
   = Inl TypeError"
  by (simp add: run_simps)

text \<open>
  C3. An answer to a question of the bank, coming after any list of submissions (which
  may hold answers to the same question), writes the bank's correct answer at that id over
  whatever was there (\<open>dict_set\<close>: the value is replaced, a key already there stays) and
  adds 1 to the score exactly when its selected option is the very string of the correct
  answer, and nothing otherwise: a second correct answer to one question counts again.
\<close>

theorem duplicates_count_each:
  assumes "subscript a ''id'' = Inr i" and "subscript a ''selected_option'' = Inr opt"
    and "hash_key i = Inr k" and "question_map qs k = Some q"
    and "submit_exam qs (JArr xs) = Inr r"
  shows "submit_exam qs (JArr (xs @ [a])) =
     Inr \<lparr>score = score r + (if opt = JStr (q_correct_answer q) then 1 else 0),
          total = total r,
          correct_answers = dict_set (correct_answers r) k i (q_correct_answer q)\<rparr>
     \<and> map_option snd (dict_set (correct_answers r) k i (q_correct_answer q) k)
         = Some (q_correct_answer q)"
proof -
  from assms(5) obtain acc where l: "score_loop (question_map qs) xs (0, Map.empty) = Inr acc"
    and r: "r = \<lparr>score = fst acc, total = length qs, correct_answers = snd acc\<rparr>"
    by (auto simp: submit_exam_def split: sum.splits)
  have "score_step (question_map qs) a acc =
      Inr (fst acc + (if opt = JStr (q_correct_answer q) then 1 else 0),
           dict_set (snd acc) k i (q_correct_answer q))"
    by (simp add: score_step_fields [OF assms(1,2)] assms(3,4))
  with l r show ?thesis
    by (simp add: submit_exam_def score_loop_append dict_set_value)
qed

text \<open>
  The theorem at a sixth correct answer to question 1 of the shipped bank after five: the
  score is 6, above the total 5. A seventh answer ``paris'' adds nothing.
\<close>

theorem duplicates_count_each_witness:
  "submit_exam questions
      (JArr (replicate 5 (JObj [(''id'', JInt 1), (''selected_option'', JStr ''Paris'')])))
     = Inr \<lparr>score = 5, total = 5, correct_answers = [KInt 1 \<mapsto> (JInt 1, ''Paris'')]\<rparr>
   \<and> submit_exam questions
      (JArr (replicate 5 (JObj [(''id'', JInt 1), (''selected_option'', JStr ''Paris'')])
             @ [JObj [(''id'', JInt 1), (''selected_option'', JStr ''Paris'')]]))
     = Inr \<lparr>score = 6, total = 5, correct_answers = [KInt 1 \<mapsto> (JInt 1, ''Paris'')]\<rparr>
   \<and> submit_exam questions
      (JArr ((replicate 5 (JObj [(''id'', JInt 1), (''selected_option'', JStr ''Paris'')])
             @ [JObj [(''id'', JInt 1), (''selected_option'', JStr ''Paris'')]])
             @ [JObj [(''id'', JInt 1), (''selected_option'', JStr ''paris'')]]))
     = Inr \<lparr>score = 6, total = 5, correct_answers = [KInt 1 \<mapsto> (JInt 1, ''Paris'')]\<rparr>"
proof -
  let ?a = "JObj [(''id'', JInt 1), (''selected_option'', JStr ''Paris'')]"
  let ?b = "JObj [(''id'', JInt 1), (''selected_option'', JStr ''paris'')]"
  let ?r5 = "\<lparr>score = 5, total = 5, correct_answers = [KInt 1 \<mapsto> (JInt 1, ''Paris'')]\<rparr>"
  let ?r6 = "\<lparr>score = 6, total = 5, correct_answers = [KInt 1 \<mapsto> (JInt 1, ''Paris'')]\<rparr>"
  have five: "submit_exam questions (JArr (replicate 5 ?a)) = Inr ?r5"
    by (simp add: run_simps numeral_nat)
  have q: "question_map questions (KInt 1) = Some (questions ! 0)"
    by (simp add: question_map_questions)
  from duplicates_count_each [of ?a "JInt 1" "JStr ''Paris''" "KInt 1" questions "questions ! 0"
      "replicate 5 ?a" ?r5, OF _ _ _ q five]
  have six: "submit_exam questions (JArr (replicate 5 ?a @ [?a])) = Inr ?r6"
    by (simp add: correct_answer_questions dict_set_def)
  from duplicates_count_each [of ?b "JInt 1" "JStr ''paris''" "KInt 1" questions "questions ! 0"
      "replicate 5 ?a @ [?a]" ?r6, OF _ _ _ q six]
  have seven: "submit_exam questions (JArr ((replicate 5 ?a @ [?a]) @ [?b])) = Inr ?r6"
    by (simp add: correct_answer_questions dict_set_def)
  from five six seven show ?thesis by simp
qed

text \<open>
  C4. On the shipped bank, the submissions \<open>[{id: 1, selected_option: "Paris"},
  {id: 2, selected_option: "Earth"}]\<close> give score 1, total 5 and the correct answers
  \<open>{1: "Paris", 2: "Mars"}\<close>.
\<close>

theorem submit_exam_example:
  "submit_exam questions
     (JArr [JObj [(''id'', JInt 1), (''selected_option'', JStr ''Paris'')],
            JObj [(''id'', JInt 2), (''selected_option'', JStr ''Earth'')]])
   = Inr \<lparr>score = 1, total = 5,
          correct_answers = [KInt 1 \<mapsto> (JInt 1, ''Paris''), KInt 2 \<mapsto> (JInt 2, ''Mars'')]\<rparr>"
  by (simp add: run_simps)

section \<open>The claims about registration and login\<close>

text \<open>
  C5, as the claim states it, fails: the dictionary \<^verbatim>\<open>users\<close> holds the password of
  the request itself. After ``alice'' registers with ``s3cret'' in an empty store, the
  store maps her name to ``s3cret''.
\<close>

theorem register_plaintext_counterexample:
  "register Map.empty (JObj [(''username'', JStr ''alice''), (''password'', JStr ''s3cret'')])
   = Inr (Msg ''User registered successfully'' 201, [KStr ''alice'' \<mapsto> JStr ''s3cret''])"
  by (simp add: register_def)

text \<open>
  C5, amended. A registration with a non-empty password and a non-empty username that is
  not in the store succeeds with status 201 and stores the password as it was sent,
  neither hashed nor salted; the other entries of the store are unchanged.
\<close>

theorem register_stores_password:
  assumes "dict_get data ''username'' = Inr u" and "dict_get data ''password'' = Inr p"
    and "truthy u" and "truthy p" and "hash_key u = Inr k" and "users k = None"
  shows "register users data = Inr (Msg ''User registered successfully'' 201, users(k \<mapsto> p))"
  using assms by (simp add: register_def)

theorem register_stores_password_witness:
  "dict_get (JObj [(''username'', JStr ''alice''), (''password'', JStr ''s3cret'')]) ''username''
     = Inr (JStr ''alice'')
   \<and> dict_get (JObj [(''username'', JStr ''alice''), (''password'', JStr ''s3cret'')]) ''password''
     = Inr (JStr ''s3cret'')
   \<and> truthy (JStr ''alice'') \<and> truthy (JStr ''s3cret'')
   \<and> hash_key (JStr ''alice'') = Inr (KStr ''alice'')
   \<and> [KStr ''bob'' \<mapsto> JStr ''hunter2''] (KStr ''alice'') = None
   \<and> register [KStr ''bob'' \<mapsto> JStr ''hunter2'']
        (JObj [(''username'', JStr ''alice''), (''password'', JStr ''s3cret'')])
     = Inr (Msg ''User registered successfully'' 201,
            [KStr ''bob'' \<mapsto> JStr ''hunter2'', KStr ''alice'' \<mapsto> JStr ''s3cret''])"
  using register_stores_password [of "JObj [(''username'', JStr ''alice''), (''password'', JStr ''s3cret'')]"
      "JStr ''alice''" "JStr ''s3cret''" "KStr ''alice''" "[KStr ''bob'' \<mapsto> JStr ''hunter2'']"]
  by simp

text \<open>
  C6. Two login requests with non-empty fields, one for a username that is not in the
  store and one for a stored username with a password that differs from the stored one,
  get the same response: status 401 with the one message ``Invalid username or
  password''; the store is not changed.
\<close>

theorem login_no_enumeration:
  assumes "dict_get d1 ''username'' = Inr u1" and "dict_get d1 ''password'' = Inr p1"
    and "truthy u1" and "truthy p1" and "hash_key u1 = Inr k1" and "users k1 = None"
    and "dict_get d2 ''username'' = Inr u2" and "dict_get d2 ''password'' = Inr p2"
    and "truthy u2" and "truthy p2" and "hash_key u2 = Inr k2" and "users k2 = Some stored"
    and "\<not> py_eq stored p2"
  shows "login users d1 = Inr (Msg ''Invalid username or password'' 401, users)
     \<and> login users d2 = Inr (Msg ''Invalid username or password'' 401, users)"
  using assms by (simp add: login_def)

text \<open>
  The theorem at a store that holds ``bob'': a login as ``alice'', and a login as ``bob''
  with the password in another case.
\<close>

theorem login_no_enumeration_witness:
  "[KStr ''bob'' \<mapsto> JStr ''hunter2''] (KStr ''alice'') = None
   \<and> [KStr ''bob'' \<mapsto> JStr ''hunter2''] (KStr ''bob'') = Some (JStr ''hunter2'')
   \<and> \<not> py_eq (JStr ''hunter2'') (JStr ''Hunter2'')
   \<and> login [KStr ''bob'' \<mapsto> JStr ''hunter2'']
        (JObj [(''username'', JStr ''alice''), (''password'', JStr ''hunter2'')])
     = Inr (Msg ''Invalid username or password'' 401, [KStr ''bob'' \<mapsto> JStr ''hunter2''])
   \<and> login [KStr ''bob'' \<mapsto> JStr ''hunter2'']
        (JObj [(''username'', JStr ''bob''), (''password'', JStr ''Hunter2'')])
     = Inr (Msg ''Invalid username or password'' 401, [KStr ''bob'' \<mapsto> JStr ''hunter2''])"
  using login_no_enumeration [of "JObj [(''username'', JStr ''alice''), (''password'', JStr ''hunter2'')]"
      "JStr ''alice''" "JStr ''hunter2''" "KStr ''alice''" "[KStr ''bob'' \<mapsto> JStr ''hunter2'']"
      "JObj [(''username'', JStr ''bob''), (''password'', JStr ''Hunter2'')]"
      "JStr ''bob''" "JStr ''Hunter2''" "KStr ''bob''" "JStr ''hunter2''"]
  by simp

text \<open>
  For a request whose body is an object: when the username or the password is missing
  or empty, \<open>register\<close> and \<open>login\<close> both answer 400 and leave the store as
  it was; when both are given and the username is already in the store, \<open>register\<close>
  answers 409 and leaves the store as it was.
\<close>

lemma missing_fields_rejected:
  assumes "dict_get data ''username'' = Inr u" and "dict_get data ''password'' = Inr p"
  shows "(\<not> truthy u \<or> \<not> truthy p \<longrightarrow>
            register users data = Inr (Msg ''Username and password are required'' 400, users)
          \<and> login users data = Inr (Msg ''Username and password are required'' 400, users))
     \<and> (truthy u \<and> truthy p \<and> hash_key u = Inr k \<and> users k \<noteq> None \<longrightarrow>
            register users data = Inr (Msg ''User already exists'' 409, users))"
  using assms by (auto simp: register_def login_def)

text \<open>
  The lemma at a body without a password, at a body with the empty username, and at a
  second registration of ``bob''.
\<close>

lemma missing_fields_rejected_examples:
  "dict_get (JObj [(''username'', JStr ''alice'')]) ''password'' = Inr JNull
   \<and> \<not> truthy JNull
   \<and> register [KStr ''bob'' \<mapsto> JStr ''hunter2''] (JObj [(''username'', JStr ''alice'')])
     = Inr (Msg ''Username and password are required'' 400, [KStr ''bob'' \<mapsto> JStr ''hunter2''])
   \<and> login [KStr ''bob'' \<mapsto> JStr ''hunter2''] (JObj [(''username'', JStr ''alice'')])
     = Inr (Msg ''Username and password are required'' 400, [KStr ''bob'' \<mapsto> JStr ''hunter2''])
   \<and> \<not> truthy (JStr [])
   \<and> register [KStr ''bob'' \<mapsto> JStr ''hunter2'']
        (JObj [(''username'', JStr []), (''password'', JStr ''x'')])
     = Inr (Msg ''Username and password are required'' 400, [KStr ''bob'' \<mapsto> JStr ''hunter2''])
   \<and> register [KStr ''bob'' \<mapsto> JStr ''hunter2'']
        (JObj [(''username'', JStr ''bob''), (''password'', JStr ''x'')])
     = Inr (Msg ''User already exists'' 409, [KStr ''bob'' \<mapsto> JStr ''hunter2''])"
proof -
  let ?users = "[KStr ''bob'' \<mapsto> JStr ''hunter2'']"
  from missing_fields_rejected [of "JObj [(''username'', JStr ''alice'')]" "JStr ''alice''" JNull ?users]
  have a: "register ?users (JObj [(''username'', JStr ''alice'')])
       = Inr (Msg ''Username and password are required'' 400, ?users)
     \<and> login ?users (JObj [(''username'', JStr ''alice'')])
       = Inr (Msg ''Username and password are required'' 400, ?users)"
    by simp
  from missing_fields_rejected [of "JObj [(''username'', JStr []), (''password'', JStr ''x'')]"
      "JStr []" "JStr ''x''" ?users]
  have b: "register ?users (JObj [(''username'', JStr []), (''password'', JStr ''x'')])
       = Inr (Msg ''Username and password are required'' 400, ?users)"
    by simp
  from missing_fields_rejected [of "JObj [(''username'', JStr ''bob''), (''password'', JStr ''x'')]"
      "JStr ''bob''" "JStr ''x''" ?users "KStr ''bob''"]
  have c: "register ?users (JObj [(''username'', JStr ''bob''), (''password'', JStr ''x'')])
       = Inr (Msg ''User already exists'' 409, ?users)"
    by simp
  from a b c show ?thesis by simp
qed

text \<open>
  C7 fails on the code. Both handlers call \<^verbatim>\<open>data.get\<close> before the check for missing
  fields, and only a dictionary has that method: for a body that is a list, \<^verbatim>\<open>null\<close>,
  a string or a number, in which username and password are missing, the call raises
  \<^verbatim>\<open>AttributeError\<close>, which nothing catches, so the request ends in that exception and
  not in the response with status 400 that the check two lines below gives for missing
  fields.
\<close>

theorem register_login_non_object_body:
  "register users (JArr []) = Inl AttributeError
   \<and> login users (JArr []) = Inl AttributeError
   \<and> register users JNull = Inl AttributeError
   \<and> login users JNull = Inl AttributeError
   \<and> register users (JStr ''x'') = Inl AttributeError
   \<and> login users (JStr ''x'') = Inl AttributeError
   \<and> register users (JInt 5) = Inl AttributeError
   \<and> login users (JInt 5) = Inl AttributeError"
  by (simp add: register_def login_def)

text \<open>The theorem at the empty store.\<close>

theorem register_login_non_object_body_witness:
  "register Map.empty (JArr []) = Inl AttributeError
   \<and> login Map.empty (JArr []) = Inl AttributeError
   \<and> register Map.empty JNull = Inl AttributeError
   \<and> login Map.empty (JStr ''x'') = Inl AttributeError"
  using register_login_non_object_body [of Map.empty] by simp

section \<open>The claims about the question list and about malformed submissions\<close>

text \<open>
  C8. \<open>get_questions\<close> returns one object for each question of the bank, in the
  order of the bank, holding the id, the text (under the key \<^verbatim>\<open>question\<close>) and the
  options of that question and nothing else; the key \<^verbatim>\<open>correct_answer\<close> occurs
  nowhere in the output, whatever the bank. The output is a function of the bank alone:
  the handler reads \<^verbatim>\<open>questions\<close> and writes nothing, so two calls on one bank return
  the same list.
\<close>

theorem get_questions_strips_answers:
  "\<exists>ds. get_questions qs = JArr ds \<and> length ds = length qs
     \<and> (\<forall>n<length qs.
           ds ! n = JObj [(''id'', JInt (q_id (qs ! n))),
                          (''question'', JStr (q_question (qs ! n))),
                          (''options'', JArr (map JStr (q_options (qs ! n))))]
           \<and> subscript (ds ! n) ''correct_answer'' = Inl KeyError)
     \<and> \<not> has_key ''correct_answer'' (get_questions qs)"
proof -
  have "\<not> list_ex (has_key k) (map JStr xs)" for k xs
    by (induction xs) simp_all
  then have "\<not> has_key ''correct_answer'' (get_questions qs)"
    by (simp add: get_questions_def list_ex_iff)
  then show ?thesis
    by (simp add: get_questions_def)
qed

text \<open>The theorem at the shipped bank and its second question.\<close>

theorem get_questions_strips_answers_witness:
  "Suc 0 < length questions
   \<and> (\<exists>ds. get_questions questions = JArr ds \<and> length ds = 5
        \<and> ds ! Suc 0 = JObj [(''id'', JInt 2),
                             (''question'', JStr ''Which planet is known as the Red Planet?''),
                             (''options'', JArr [JStr ''Earth'', JStr ''Mars'',
                                                 JStr ''Jupiter'', JStr ''Saturn''])]
        \<and> subscript (ds ! Suc 0) ''correct_answer'' = Inl KeyError)
   \<and> \<not> has_key ''correct_answer'' (get_questions questions)"
proof -
  have n: "Suc 0 < length questions"
    by (simp add: length_questions)
  have q: "q_id (questions ! Suc 0) = 2"
    "q_question (questions ! Suc 0) = ''Which planet is known as the Red Planet?''"
    "q_options (questions ! Suc 0) = [''Earth'', ''Mars'', ''Jupiter'', ''Saturn'']"
    by (simp_all add: questions_def)
  from get_questions_strips_answers [of questions] obtain ds
    where ds: "get_questions questions = JArr ds" "length ds = length questions"
      and all: "\<forall>n<length questions.
           ds ! n = JObj [(''id'', JInt (q_id (questions ! n))),
                          (''question'', JStr (q_question (questions ! n))),
                          (''options'', JArr (map JStr (q_options (questions ! n))))]
           \<and> subscript (ds ! n) ''correct_answer'' = Inl KeyError"
      and no: "\<not> has_key ''correct_answer'' (get_questions questions)"
    by blast
  from all n have
    "ds ! Suc 0 = JObj [(''id'', JInt (q_id (questions ! Suc 0))),
                        (''question'', JStr (q_question (questions ! Suc 0))),
                        (''options'', JArr (map JStr (q_options (questions ! Suc 0))))]
     \<and> subscript (ds ! Suc 0) ''correct_answer'' = Inl KeyError"
    by blast
  with ds n no show ?thesis
    by (simp add: q length_questions)
qed

text \<open>
  C9 fails on the code. The handler checks nothing before it subscripts an entry: for an
  entry without \<^verbatim>\<open>selected_option\<close> the subscript raises \<^verbatim>\<open>KeyError\<close>, which nothing
  catches, so the request ends in that exception and not in the response with status 400
  that \<open>register\<close> and \<open>login\<close> give for a missing field. Other malformations
  raise as well: an id that is a list raises \<^verbatim>\<open>TypeError\<close> at the membership test, an
  entry that is a string raises \<^verbatim>\<open>TypeError\<close> at the subscript. In each case there is no
  scoring result, also when an earlier entry was scored (lemma \<open>submit_exam_not_carries\<close>).
\<close>

theorem submit_exam_missing_field:
  "submit_exam questions (JArr [JObj [(''id'', JInt 1)]]) = Inl KeyError
   \<and> submit_exam questions
       (JArr [JObj [(''id'', JInt 1), (''selected_option'', JStr ''Paris'')],
              JObj [(''selected_option'', JStr ''Mars'')]]) = Inl KeyError
   \<and> submit_exam questions
       (JArr [JObj [(''id'', JArr [JInt 1]), (''selected_option'', JStr ''Paris'')]]) = Inl TypeError
   \<and> submit_exam questions (JArr [JStr ''Paris'']) = Inl TypeError"
  by (simp add: run_simps)




end
